theory Spec2Isabelle
  imports Main
begin

section \<open>API tokens and the request authorizer of the weather subscription API\<close>

text \<open>
  The development embeds two Lambda handlers of the repository:
  the token manager (\<^verbatim>\<open>apps/api/src/tokens/index.ts\<close>: \<^verbatim>\<open>handler\<close>, \<^verbatim>\<open>createToken\<close>,
  \<^verbatim>\<open>listTokens\<close>, \<^verbatim>\<open>revokeToken\<close>) and the request authorizer (\<^verbatim>\<open>handler\<close>,
  \<^verbatim>\<open>validateCognitoToken\<close>, \<^verbatim>\<open>validateApiKey\<close>, \<^verbatim>\<open>generatePolicy\<close>).
  Both talk to one DynamoDB table of API tokens. Everything the handlers take from
  outside their own source text is an explicit argument: the library functions in
  \<open>lib\<close>, and what differs from one invocation to the next (clock, random bytes,
  generated id, failures of the table, verdict of the JWT verifier) in \<open>env\<close>.
\<close>

subsection \<open>Thrown values\<close>

text \<open>
  A JavaScript \<^verbatim>\<open>throw\<close> carries a value. The handlers only ever inspect whether it is
  an \<^verbatim>\<open>Error\<close> and, if so, its \<^verbatim>\<open>message\<close>.
\<close>

datatype thrown = Error (message: string) | NonError

subsection \<open>The token object (interface \<^verbatim>\<open>ApiToken\<close>)\<close>

text \<open>
  One record stands for the run-time object of shape \<^verbatim>\<open>ApiToken\<close> and of shape
  \<^verbatim>\<open>Omit<ApiToken, 'tokenHash'>\<close>: a property that can be absent from the object is an
  \<open>option\<close>, \<open>None\<close> when the object has no such property. The field \<^verbatim>\<open>id\<close> is
  called \<open>id_attr\<close>, \<^verbatim>\<open>name\<close> is \<open>name_attr\<close> and \<^verbatim>\<open>prefix\<close> is \<open>prefix_attr\<close>.
\<close>

record ApiToken =
  id_attr :: string
  userId :: string
  tokenHash :: "string option"
  name_attr :: string
  prefix_attr :: string
  createdAt :: string
  lastUsedAt :: "string option"
  expiresAt :: "int option"
  revoked :: bool

text \<open>Interface \<^verbatim>\<open>CreateTokenRequest\<close>, as \<^verbatim>\<open>JSON.parse\<close> may deliver it: \<^verbatim>\<open>name\<close> can be
  missing at run time, \<^verbatim>\<open>expiresInDays\<close> is optional and a whole number of days.\<close>

record CreateTokenRequest =
  req_name :: "string option"
  expiresInDays :: "int option"

subsection \<open>Outside world\<close>

text \<open>The four DynamoDB commands the handlers send.\<close>

datatype command = PutCommand | QueryCommand | GetCommand | UpdateCommand

text \<open>
  Library functions, the same in every invocation: \<^verbatim>\<open>createHash('sha256')...digest('hex')\<close>,
  \<^verbatim>\<open>Date.prototype.toISOString\<close> of an instant in milliseconds, and \<^verbatim>\<open>JSON.parse\<close> of a
  request body, read as a \<^verbatim>\<open>CreateTokenRequest\<close>. \<open>Inl\<close> is the value thrown for a body that
  cannot be read so: by \<^verbatim>\<open>JSON.parse\<close> itself on malformed text, or by the first access to a
  property of the parsed value. Either way it is thrown before any command is sent.
\<close>

record lib =
  sha256_hex :: "string \<Rightarrow> string"
  JSON_parse :: "string \<Rightarrow> thrown + CreateTokenRequest"
  toISOString :: "int \<Rightarrow> string"

text \<open>
  What one invocation draws from its environment: the value thrown by
  \<^verbatim>\<open>docClient.send\<close> for a command, if it fails; \<^verbatim>\<open>randomBytes(32).toString('base64url')\<close>;
  \<^verbatim>\<open>uuidv4()\<close>; the clock in milliseconds since the epoch; and the outcome of
  \<^verbatim>\<open>verifier.verify\<close>, which is either the \<^verbatim>\<open>sub\<close> claim of the payload or a thrown value.
\<close>

record env =
  send_fails :: "command \<Rightarrow> thrown option"
  randomBytes_base64url :: string
  uuidv4 :: string
  Date_now :: int
  verifier_verify :: "string \<Rightarrow> thrown + string"

subsection \<open>The token table\<close>

text \<open>
  The table is the list of its items; the item of a key is the first one in the list with
  that \<^verbatim>\<open>id\<close>. \<open>put_item\<close> is \<^verbatim>\<open>PutItem\<close> (replace the item of the key, or add one),
  \<open>get_item\<close> is \<^verbatim>\<open>GetItem\<close>, \<open>set_revoked\<close> is the \<^verbatim>\<open>UpdateItem\<close> with
  \<^verbatim>\<open>SET revoked = :revoked\<close> where \<^verbatim>\<open>:revoked\<close> is \<^verbatim>\<open>true\<close>. The two queries go through the
  secondary indexes \<^verbatim>\<open>TokenHashIndex\<close> and \<^verbatim>\<open>UserIdIndex\<close> and return the items in table order.
  \<^verbatim>\<open>UpdateItem\<close> on an absent key would create an item with only \<^verbatim>\<open>id\<close> and \<^verbatim>\<open>revoked\<close>;
  \<^verbatim>\<open>revokeToken\<close> sends it only for a key that \<^verbatim>\<open>GetItem\<close> has just returned, so that case
  of \<open>set_revoked\<close> leaves the table as it is.
\<close>

type_synonym table = "ApiToken list"

fun put_item :: "ApiToken \<Rightarrow> table \<Rightarrow> table" where
  "put_item a [] = [a]"
| "put_item a (x # xs) = (if id_attr x = id_attr a then a # xs else x # put_item a xs)"

fun get_item :: "string \<Rightarrow> table \<Rightarrow> ApiToken option" where
  "get_item k [] = None"
| "get_item k (x # xs) = (if id_attr x = k then Some x else get_item k xs)"

fun set_revoked :: "string \<Rightarrow> table \<Rightarrow> table" where
  "set_revoked k [] = []"
| "set_revoked k (x # xs) =
     (if id_attr x = k then x\<lparr>revoked := True\<rparr> # xs else x # set_revoked k xs)"

definition query_TokenHashIndex :: "string \<Rightarrow> table \<Rightarrow> ApiToken list" where
  "query_TokenHashIndex h tbl = filter (\<lambda>item. tokenHash item = Some h) tbl"

definition query_UserIdIndex :: "string \<Rightarrow> table \<Rightarrow> ApiToken list" where
  "query_UserIdIndex u tbl = filter (\<lambda>item. userId item = u) tbl"

subsection \<open>Strings\<close>

text \<open>
  \<^verbatim>\<open>String.prototype.startsWith\<close>, and \<^verbatim>\<open>String.prototype.trim\<close> over one-byte characters:
  the white space and line terminators of ECMAScript below 256 are the code points
  9 to 13, 32 and 160.
\<close>

definition startsWith :: "string \<Rightarrow> string \<Rightarrow> bool" where
  "startsWith s p = (take (length p) s = p)"

definition is_white_space :: "char \<Rightarrow> bool" where
  "is_white_space c = (of_char c \<in> {9, 10, 11, 12, 13, 32, 160 :: nat})"

definition trim :: "string \<Rightarrow> string" where
  "trim s = rev (dropWhile is_white_space (rev (dropWhile is_white_space s)))"

subsection \<open>Token manager: \<^verbatim>\<open>apps/api/src/tokens/index.ts\<close>\<close>

definition MAX_EXPIRY_DAYS :: int where
  "MAX_EXPIRY_DAYS = 365"

definition TOKEN_PREFIX :: string where
  "TOKEN_PREFIX = ''wea_''"

text \<open>
  The event, reduced to what the handler reads:
  \<^verbatim>\<open>event.requestContext.authorizer?.claims?.sub\<close>, \<^verbatim>\<open>event.httpMethod\<close>, \<^verbatim>\<open>event.body\<close> and
  \<^verbatim>\<open>event.pathParameters?.id\<close>.
\<close>

record APIGatewayProxyEvent =
  claims_sub :: "string option"
  httpMethod :: string
  event_body :: "string option"
  pathParameters_id :: "string option"

text \<open>
  The result, before \<^verbatim>\<open>JSON.stringify\<close>: the status code and the object that becomes the
  body. The \<^verbatim>\<open>headers\<close> are the same constant in every result and are left out.
\<close>

datatype body =
    Message string
  | InternalError string string
  | CreateTokenResponse (token: string) (tokenInfo: ApiToken)
  | ListTokensResponse (tokens: "ApiToken list")

record APIGatewayProxyResult =
  statusCode :: nat
  result_body :: body

definition reply :: "nat \<Rightarrow> body \<Rightarrow> APIGatewayProxyResult" where
  "reply c b = \<lparr>statusCode = c, result_body = b\<rparr>"

text \<open>
  The object literal \<^verbatim>\<open>apiToken\<close> of \<^verbatim>\<open>createToken\<close>. \<^verbatim>\<open>if (request.expiresInDays)\<close> is false
  for an absent value and for 0. \<^verbatim>\<open>setDate(getDate() + d)\<close> moves the date by \<open>d\<close> calendar
  days, which is \<open>d\<close> times 86400000 milliseconds in the UTC time zone the function runs in.
\<close>

definition new_token :: "env \<Rightarrow> string" where
  "new_token E = TOKEN_PREFIX @ randomBytes_base64url E"

definition new_expiresAt :: "env \<Rightarrow> CreateTokenRequest \<Rightarrow> int option" where
  "new_expiresAt E request =
     (case expiresInDays request of
        None \<Rightarrow> None
      | Some d \<Rightarrow> if d = 0 then None else Some ((Date_now E + d * 86400000) div 1000))"

definition new_apiToken :: "lib \<Rightarrow> env \<Rightarrow> CreateTokenRequest \<Rightarrow> string \<Rightarrow> ApiToken" where
  "new_apiToken L E request user =
     \<lparr>id_attr = uuidv4 E,
      userId = user,
      tokenHash = Some (sha256_hex L (new_token E)),
      name_attr = trim (case req_name request of None \<Rightarrow> [] | Some n \<Rightarrow> n),
      prefix_attr = take 12 (new_token E),
      createdAt = toISOString L (Date_now E),
      lastUsedAt = None,
      expiresAt = new_expiresAt E request,
      revoked = False\<rparr>"

text \<open>
  The three operations return either the value thrown out of them or the table after the
  call together with the result. A command that throws has not changed the table.
\<close>

definition createToken ::
  "lib \<Rightarrow> env \<Rightarrow> table \<Rightarrow> APIGatewayProxyEvent \<Rightarrow> string \<Rightarrow> thrown + table \<times> APIGatewayProxyResult" where
  "createToken L E tbl event user =
     (case event_body event of
        None \<Rightarrow> Inr (tbl, reply 400 (Message ''Request body is required''))
      | Some b \<Rightarrow>
          if b = [] then Inr (tbl, reply 400 (Message ''Request body is required''))
          else (case JSON_parse L b of
             Inl e \<Rightarrow> Inl e
           | Inr request \<Rightarrow>
               if (case req_name request of None \<Rightarrow> True | Some n \<Rightarrow> n = [] \<or> length (trim n) = 0)
               then Inr (tbl, reply 400 (Message ''Token name is required''))
               else if (case expiresInDays request of
                          None \<Rightarrow> False
                        | Some d \<Rightarrow> d < 1 \<or> d > MAX_EXPIRY_DAYS)
               then Inr (tbl, reply 400 (Message ''Expiry must be between 1 and 365 days''))
               else (case send_fails E PutCommand of
                  Some e \<Rightarrow> Inl e
                | None \<Rightarrow>
                    Inr (put_item (new_apiToken L E request user) tbl,
                         reply 201 (CreateTokenResponse (new_token E)
                           ((new_apiToken L E request user)\<lparr>tokenHash := None\<rparr>))))))"

definition listTokens ::
  "env \<Rightarrow> table \<Rightarrow> string \<Rightarrow> thrown + table \<times> APIGatewayProxyResult" where
  "listTokens E tbl user =
     (case send_fails E QueryCommand of
        Some e \<Rightarrow> Inl e
      | None \<Rightarrow>
          Inr (tbl, reply 200 (ListTokensResponse
                 (map (\<lambda>item. item\<lparr>tokenHash := None\<rparr>) (query_UserIdIndex user tbl)))))"

definition revokeToken ::
  "env \<Rightarrow> table \<Rightarrow> APIGatewayProxyEvent \<Rightarrow> string \<Rightarrow> thrown + table \<times> APIGatewayProxyResult" where
  "revokeToken E tbl event user =
     (case pathParameters_id event of
        None \<Rightarrow> Inr (tbl, reply 400 (Message ''Token ID is required''))
      | Some tokenId \<Rightarrow>
          if tokenId = [] then Inr (tbl, reply 400 (Message ''Token ID is required''))
          else (case send_fails E GetCommand of
             Some e \<Rightarrow> Inl e
           | None \<Rightarrow>
               (case get_item tokenId tbl of
                  None \<Rightarrow> Inr (tbl, reply 404 (Message ''Token not found''))
                | Some item \<Rightarrow>
                    if userId item \<noteq> user then Inr (tbl, reply 403 (Message ''Forbidden''))
                    else (case send_fails E UpdateCommand of
                       Some e \<Rightarrow> Inl e
                     | None \<Rightarrow>
                         Inr (set_revoked tokenId tbl,
                              reply 200 (Message ''Token revoked successfully''))))))"

text \<open>The result built in the \<^verbatim>\<open>catch\<close> clause of the handler.\<close>

definition internal_server_error :: "thrown \<Rightarrow> APIGatewayProxyResult" where
  "internal_server_error e =
     reply 500 (InternalError ''Internal server error''
       (case e of Error m \<Rightarrow> m | NonError \<Rightarrow> ''Unknown error''))"

text \<open>The \<^verbatim>\<open>switch\<close> on the method, and the handler around it.\<close>

definition route ::
  "lib \<Rightarrow> env \<Rightarrow> table \<Rightarrow> APIGatewayProxyEvent \<Rightarrow> string \<Rightarrow> thrown + table \<times> APIGatewayProxyResult" where
  "route L E tbl event user =
     (if httpMethod event = ''POST'' then createToken L E tbl event user
      else if httpMethod event = ''GET'' then listTokens E tbl user
      else if httpMethod event = ''DELETE'' then revokeToken E tbl event user
      else Inr (tbl, reply 405 (Message ''Method not allowed'')))"

definition tokens_handler ::
  "lib \<Rightarrow> env \<Rightarrow> table \<Rightarrow> APIGatewayProxyEvent \<Rightarrow> table \<times> APIGatewayProxyResult" where
  "tokens_handler L E tbl event =
     (case claims_sub event of
        None \<Rightarrow> (tbl, reply 401 (Message ''Unauthorized''))
      | Some user \<Rightarrow>
          if user = [] then (tbl, reply 401 (Message ''Unauthorized''))
          else (case route L E tbl event user of
             Inl e \<Rightarrow> (tbl, internal_server_error e)
           | Inr r \<Rightarrow> r))"

text \<open>The token objects that a body carries.\<close>

fun token_objects :: "body \<Rightarrow> ApiToken list" where
  "token_objects (Message m) = []"
| "token_objects (InternalError m d) = []"
| "token_objects (CreateTokenResponse t info) = [info]"
| "token_objects (ListTokensResponse ts) = ts"

subsection \<open>Request authorizer\<close>

text \<open>
  The authorizer returns a policy or throws. Besides the outcome the model keeps the list
  of what the invocation did outside itself, in order: calls of \<^verbatim>\<open>verifier.verify\<close>,
  queries of the token table and the values passed to \<^verbatim>\<open>console.error\<close>
  (\<^verbatim>\<open>console.log\<close> lines are left out).
\<close>

datatype Effect = Allow | Deny

record APIGatewayAuthorizerResult =
  principalId :: string
  policy_effect :: Effect
  policy_resource :: string
  policy_context :: "(string \<times> string) list option"

datatype action = Verify string | QueryTokenHash string | ConsoleError thrown

type_synonym outcome = "action list \<times> (thrown + APIGatewayAuthorizerResult)"

definition generatePolicy ::
  "string \<Rightarrow> Effect \<Rightarrow> string \<Rightarrow> (string \<times> string) list option \<Rightarrow> APIGatewayAuthorizerResult" where
  "generatePolicy principal_id eff res ctx =
     \<lparr>principalId = principal_id, policy_effect = eff, policy_resource = res, policy_context = ctx\<rparr>"

definition validateCognitoToken :: "env \<Rightarrow> string \<Rightarrow> string \<Rightarrow> outcome" where
  "validateCognitoToken E tok methodArn =
     (case verifier_verify E tok of
        Inr payload_sub \<Rightarrow>
          ([Verify tok],
           Inr (generatePolicy payload_sub Allow methodArn
                  (Some [(''userId'', payload_sub), (''authType'', ''cognito'')])))
      | Inl e \<Rightarrow> ([Verify tok, ConsoleError e], Inl (Error ''Unauthorized'')))"

text \<open>
  \<^verbatim>\<open>validateApiKey\<close>: every \<^verbatim>\<open>throw\<close> inside its \<^verbatim>\<open>try\<close> block ends in the \<^verbatim>\<open>catch\<close> clause,
  which logs the value and throws \<^verbatim>\<open>Error('Unauthorized')\<close>. \<^verbatim>\<open>apiToken.expiresAt && ...\<close> is
  false for an absent \<^verbatim>\<open>expiresAt\<close> and for 0.
\<close>

definition unauthorized :: "action list \<Rightarrow> thrown \<Rightarrow> outcome" where
  "unauthorized acts e = (acts @ [ConsoleError e], Inl (Error ''Unauthorized''))"

definition validateApiKey :: "lib \<Rightarrow> env \<Rightarrow> table \<Rightarrow> string \<Rightarrow> string \<Rightarrow> outcome" where
  "validateApiKey L E tbl tok methodArn =
     (let h = sha256_hex L tok in
      case send_fails E QueryCommand of
        Some e \<Rightarrow> unauthorized [QueryTokenHash h] e
      | None \<Rightarrow>
          (case query_TokenHashIndex h tbl of
             [] \<Rightarrow> unauthorized [QueryTokenHash h] (Error ''API key not found'')
           | apiToken # _ \<Rightarrow>
               if revoked apiToken
               then unauthorized [QueryTokenHash h] (Error ''API key has been revoked'')
               else if (case expiresAt apiToken of
                          None \<Rightarrow> False
                        | Some t \<Rightarrow> t \<noteq> 0 \<and> t < Date_now E div 1000)
               then unauthorized [QueryTokenHash h] (Error ''API key has expired'')
               else ([QueryTokenHash h],
                     Inr (generatePolicy (userId apiToken) Allow methodArn
                            (Some [(''userId'', userId apiToken),
                                   (''tokenId'', id_attr apiToken),
                                   (''authType'', ''apikey'')])))))"

text \<open>The handler: \<^verbatim>\<open>event.authorizationToken\<close> and \<^verbatim>\<open>event.methodArn\<close> are its two inputs.
  Whatever is thrown inside its \<^verbatim>\<open>try\<close> block is logged and replaced by
  \<^verbatim>\<open>Error('Unauthorized')\<close>.\<close>

definition rethrow :: "outcome \<Rightarrow> outcome" where
  "rethrow r = (case snd r of Inl e \<Rightarrow> unauthorized (fst r) e | Inr p \<Rightarrow> r)"

definition authorizer_handler :: "lib \<Rightarrow> env \<Rightarrow> table \<Rightarrow> string \<Rightarrow> string \<Rightarrow> outcome" where
  "authorizer_handler L E tbl authorizationToken methodArn =
     (if startsWith authorizationToken ''Bearer ''
      then rethrow (validateCognitoToken E (drop 7 authorizationToken) methodArn)
      else if startsWith authorizationToken ''wea_''
      then rethrow (validateApiKey L E tbl authorizationToken methodArn)
      else unauthorized [] (Error ''Invalid token format''))"

subsection \<open>Sequences of invocations\<close>

text \<open>
  The table is shared by the two handlers. An invocation of the token manager leaves the
  table its handler returns; the authorizer sends nothing but a \<^verbatim>\<open>QueryCommand\<close>, so it leaves
  the table as it found it.
\<close>

datatype invocation =
    TokensRequest env APIGatewayProxyEvent
  | AuthorizerRequest env string string

fun table_after :: "lib \<Rightarrow> table \<Rightarrow> invocation \<Rightarrow> table" where
  "table_after L tbl (TokensRequest E event) = fst (tokens_handler L E tbl event)"
| "table_after L tbl (AuthorizerRequest E authorizationToken methodArn) = tbl"

definition run :: "lib \<Rightarrow> table \<Rightarrow> invocation list \<Rightarrow> table" where
  "run L tbl calls = foldl (table_after L) tbl calls"

text \<open>The invocations of a sequence that can reach \<^verbatim>\<open>uuidv4()\<close>, with the id each draws.\<close>

fun drawn_ids :: "invocation list \<Rightarrow> string list" where
  "drawn_ids [] = []"
| "drawn_ids (TokensRequest E event # cs) =
     (if httpMethod event = ''POST'' then uuidv4 E # drawn_ids cs else drawn_ids cs)"
| "drawn_ids (AuthorizerRequest E t a # cs) = drawn_ids cs"

subsection \<open>A small concrete world\<close>

text \<open>
  Stand-ins for the library functions and the environment, used to evaluate the handlers
  on concrete inputs. The stand-in for \<^verbatim>\<open>JSON.parse\<close> reads the whole body as the \<^verbatim>\<open>name\<close>,
  throws on the body \<^verbatim>\<open>{\<close> and reads the body \<^verbatim>\<open>CI/400\<close> as the name \<^verbatim>\<open>CI\<close> with 400 days.
\<close>

definition demo_lib :: lib where
  "demo_lib =
     \<lparr>sha256_hex = (\<lambda>s. ''sha256:'' @ s),
      JSON_parse = (\<lambda>b. if b = ''{'' then Inl (Error ''Unexpected end of JSON input'')
                          else if b = ''CI/400'' then Inr \<lparr>req_name = Some ''CI'', expiresInDays = Some 400\<rparr>
                          else Inr \<lparr>req_name = Some b, expiresInDays = None\<rparr>),
      toISOString = (\<lambda>t. ''2025-01-01T00:00:00.000Z'')\<rparr>"

definition demo_env :: env where
  "demo_env =
     \<lparr>send_fails = (\<lambda>c. None),
      randomBytes_base64url = ''Zm9vYmFy'',
      uuidv4 = ''id-3'',
      Date_now = 100000,
      verifier_verify = (\<lambda>t. Inl (Error ''Invalid JWT''))\<rparr>"

definition demo_item :: "string \<Rightarrow> string \<Rightarrow> string \<Rightarrow> int option \<Rightarrow> bool \<Rightarrow> ApiToken" where
  "demo_item k u tok ex r =
     \<lparr>id_attr = k, userId = u, tokenHash = Some (''sha256:'' @ tok), name_attr = ''CI'',
      prefix_attr = take 12 tok, createdAt = ''2025-01-01T00:00:00.000Z'', lastUsedAt = None,
      expiresAt = ex, revoked = r\<rparr>"

definition demo_table :: table where
  "demo_table =
     [demo_item ''id-1'' ''alice'' ''wea_AAAA'' None False,
      demo_item ''id-2'' ''bob'' ''wea_BBBB'' (Some 100) False]"

definition demo_event :: "string \<Rightarrow> string \<Rightarrow> string option \<Rightarrow> string option \<Rightarrow> APIGatewayProxyEvent" where
  "demo_event u m b k =
     \<lparr>claims_sub = Some u, httpMethod = m, event_body = b, pathParameters_id = k\<rparr>"

text \<open>An environment in which every command sent to the table fails.\<close>

definition demo_outage :: env where
  "demo_outage = demo_env\<lparr>send_fails :=
     (\<lambda>c. Some (Error ''Requested resource not found: Table: ApiTokens''))\<rparr>"

text \<open>A sequence of invocations: \<open>alice\<close> issues a token, revokes her first one, \<open>bob\<close>
  lists his tokens, and the authorizer is asked about the first token of \<open>alice\<close>.\<close>

definition demo_calls :: "invocation list" where
  "demo_calls =
     [TokensRequest demo_env (demo_event ''alice'' ''POST'' (Some ''CI'') None),
      TokensRequest demo_env (demo_event ''alice'' ''DELETE'' None (Some ''id-1'')),
      TokensRequest demo_env (demo_event ''bob'' ''GET'' None None),
      AuthorizerRequest demo_env ''wea_AAAA'' ''arn'']"

section \<open>Properties\<close>

subsection \<open>Facts about the table\<close>

lemma get_item_put_item:
  "get_item k (put_item a tbl) = (if id_attr a = k then Some a else get_item k tbl)"
  by (induction tbl) auto

lemma get_item_set_revoked:
  "get_item k (set_revoked j tbl) =
     (if k = j then map_option (\<lambda>x. x\<lparr>revoked := True\<rparr>) (get_item k tbl) else get_item k tbl)"
  by (induction tbl) auto

lemma set_revoked_idem: "set_revoked k (set_revoked k tbl) = set_revoked k tbl"
  by (induction tbl) auto

lemma query_hash_put_item:
  "query_TokenHashIndex h tbl = [] \<Longrightarrow> tokenHash a = Some h \<Longrightarrow>
     query_TokenHashIndex h (put_item a tbl) = [a]"
  by (induction tbl) (auto simp: query_TokenHashIndex_def split: if_splits)

lemma query_hash_revoked_put_item:
  "query_TokenHashIndex h tbl = [] \<Longrightarrow> tokenHash a = Some h \<Longrightarrow>
     query_TokenHashIndex h (set_revoked (id_attr a) (put_item a tbl)) = [a\<lparr>revoked := True\<rparr>]"
  by (induction tbl) (auto simp: query_TokenHashIndex_def split: if_splits)

lemmas demo_defs =
  demo_lib_def demo_env_def demo_item_def demo_table_def demo_event_def

subsection \<open>Revoke: not found, forbidden\<close>

text \<open>
  Claim C4. For every user and every token id (a non-empty path parameter), when the
  \<^verbatim>\<open>GetCommand\<close> itself does not fail: revoking an id that is not in the table answers 404
  \<^verbatim>\<open>Token not found\<close>, revoking a token whose \<^verbatim>\<open>userId\<close> is another user's answers 403
  \<^verbatim>\<open>Forbidden\<close>, and in both cases the table after the call is the table before it. Neither
  answer depends on whether the \<^verbatim>\<open>UpdateCommand\<close> would succeed: it is never sent.
\<close>

theorem revoke_not_found_forbidden:
  assumes "pathParameters_id event = Some k" and "k \<noteq> []"
    and "send_fails E GetCommand = None"
  shows "(get_item k tbl = None \<longrightarrow>
            revokeToken E tbl event user = Inr (tbl, reply 404 (Message ''Token not found'')))
       \<and> (\<forall>item. get_item k tbl = Some item \<and> userId item \<noteq> user \<longrightarrow>
            revokeToken E tbl event user = Inr (tbl, reply 403 (Message ''Forbidden'')))"
  using assms by (simp add: revokeToken_def)

theorem revoke_not_found_forbidden_witness:
  "revokeToken demo_env demo_table (demo_event ''alice'' ''DELETE'' None (Some ''id-9'')) ''alice''
     = Inr (demo_table, reply 404 (Message ''Token not found''))
   \<and> revokeToken demo_env demo_table (demo_event ''alice'' ''DELETE'' None (Some ''id-2'')) ''alice''
     = Inr (demo_table, reply 403 (Message ''Forbidden''))"
proof -
  have p: "pathParameters_id (demo_event ''alice'' ''DELETE'' None (Some ''id-9'')) = Some ''id-9''"
    and q: "pathParameters_id (demo_event ''alice'' ''DELETE'' None (Some ''id-2'')) = Some ''id-2''"
    by (simp_all add: demo_event_def)
  have f: "send_fails demo_env GetCommand = None"
    by (simp add: demo_env_def)
  have absent: "get_item ''id-9'' demo_table = None"
    by (simp add: demo_table_def demo_item_def)
  have bobs: "get_item ''id-2'' demo_table
                = Some (demo_item ''id-2'' ''bob'' ''wea_BBBB'' (Some 100) False)"
    by (simp add: demo_table_def demo_item_def)
  have other: "userId (demo_item ''id-2'' ''bob'' ''wea_BBBB'' (Some 100) False) \<noteq> ''alice''"
    by (simp add: demo_item_def)
  from revoke_not_found_forbidden [OF p _ f, of demo_table "''alice''"] absent
  have a: "revokeToken demo_env demo_table (demo_event ''alice'' ''DELETE'' None (Some ''id-9'')) ''alice''
     = Inr (demo_table, reply 404 (Message ''Token not found''))" by simp
  from revoke_not_found_forbidden [OF q _ f, of demo_table "''alice''"] bobs other
  have b: "revokeToken demo_env demo_table (demo_event ''alice'' ''DELETE'' None (Some ''id-2'')) ''alice''
     = Inr (demo_table, reply 403 (Message ''Forbidden''))" by simp
  from a b show ?thesis by simp
qed

subsection \<open>Revoke twice\<close>

text \<open>
  Claim C5. For every token of the table that the caller owns, when no command fails:
  the first revoke answers 200 and leaves the table with that token revoked; a second
  revoke of the same id on that table answers 200 again and leaves the very same table.
\<close>

theorem revoke_idempotent:
  assumes "pathParameters_id event = Some k" and "k \<noteq> []"
    and "get_item k tbl = Some item" and "userId item = user"
    and "send_fails E1 GetCommand = None" and "send_fails E1 UpdateCommand = None"
    and "send_fails E2 GetCommand = None" and "send_fails E2 UpdateCommand = None"
  shows "revokeToken E1 tbl event user
           = Inr (set_revoked k tbl, reply 200 (Message ''Token revoked successfully''))
       \<and> revokeToken E2 (set_revoked k tbl) event user
           = Inr (set_revoked k tbl, reply 200 (Message ''Token revoked successfully''))"
  using assms by (simp add: revokeToken_def get_item_set_revoked set_revoked_idem)

theorem revoke_idempotent_witness:
  "revokeToken demo_env demo_table (demo_event ''alice'' ''DELETE'' None (Some ''id-1'')) ''alice''
     = Inr ([demo_item ''id-1'' ''alice'' ''wea_AAAA'' None True,
             demo_item ''id-2'' ''bob'' ''wea_BBBB'' (Some 100) False],
            reply 200 (Message ''Token revoked successfully''))
   \<and> revokeToken demo_env
        [demo_item ''id-1'' ''alice'' ''wea_AAAA'' None True,
         demo_item ''id-2'' ''bob'' ''wea_BBBB'' (Some 100) False]
        (demo_event ''alice'' ''DELETE'' None (Some ''id-1'')) ''alice''
     = Inr ([demo_item ''id-1'' ''alice'' ''wea_AAAA'' None True,
             demo_item ''id-2'' ''bob'' ''wea_BBBB'' (Some 100) False],
            reply 200 (Message ''Token revoked successfully''))"
proof -
  have p: "pathParameters_id (demo_event ''alice'' ''DELETE'' None (Some ''id-1'')) = Some ''id-1''"
    by (simp add: demo_event_def)
  have n: "''id-1'' \<noteq> []" by simp
  have g: "get_item ''id-1'' demo_table = Some (demo_item ''id-1'' ''alice'' ''wea_AAAA'' None False)"
    by (simp add: demo_table_def demo_item_def)
  have u: "userId (demo_item ''id-1'' ''alice'' ''wea_AAAA'' None False) = ''alice''"
    by (simp add: demo_item_def)
  have f: "send_fails demo_env GetCommand = None" "send_fails demo_env UpdateCommand = None"
    by (simp_all add: demo_env_def)
  have s: "set_revoked ''id-1'' demo_table
             = [demo_item ''id-1'' ''alice'' ''wea_AAAA'' None True,
                demo_item ''id-2'' ''bob'' ''wea_BBBB'' (Some 100) False]"
    by (simp add: demo_table_def demo_item_def)
  from revoke_idempotent [OF p n g u f f] show ?thesis
    unfolding s .
qed

subsection \<open>Verification of an API key\<close>

text \<open>
  Claim C1, as the code has it. \<^verbatim>\<open>validateApiKey\<close> returns an \<^verbatim>\<open>Allow\<close> policy for the
  \<^verbatim>\<open>userId\<close> of a record exactly when the query did not fail, the hash of the supplied
  token is the \<^verbatim>\<open>tokenHash\<close> of a stored record (the first such record of the table),
  that record is not revoked, and its \<^verbatim>\<open>expiresAt\<close> is absent, 0, or not less than the
  current time in whole seconds. In every other case it throws \<^verbatim>\<open>Error('Unauthorized')\<close>.
  The claim asks for an \<^verbatim>\<open>expiresAt\<close> strictly greater than the current time; the code
  rejects only an \<^verbatim>\<open>expiresAt\<close> strictly less than it, so a token is still accepted during
  the second in which it expires.
\<close>

theorem validateApiKey_accepts_iff:
  "snd (validateApiKey L E tbl tok arn) =
     (case (send_fails E QueryCommand, query_TokenHashIndex (sha256_hex L tok) tbl) of
        (None, r # rest) \<Rightarrow>
          if \<not> revoked r \<and>
             (case expiresAt r of None \<Rightarrow> True | Some t \<Rightarrow> t = 0 \<or> Date_now E div 1000 \<le> t)
          then Inr (generatePolicy (userId r) Allow arn
                 (Some [(''userId'', userId r), (''tokenId'', id_attr r),
                        (''authType'', ''apikey'')]))
          else Inl (Error ''Unauthorized'')
      | _ \<Rightarrow> Inl (Error ''Unauthorized''))"
  by (auto simp: validateApiKey_def unauthorized_def Let_def split: option.splits list.splits)

text \<open>The theorem at work on the demo table: the token of \<open>alice\<close> never expires and is
  accepted; once its record is revoked it is rejected.\<close>

theorem validateApiKey_accepts_iff_witness:
  "snd (validateApiKey demo_lib demo_env demo_table ''wea_AAAA'' ''arn'')
     = Inr (generatePolicy ''alice'' Allow ''arn''
         (Some [(''userId'', ''alice''), (''tokenId'', ''id-1''), (''authType'', ''apikey'')]))
   \<and> snd (validateApiKey demo_lib demo_env (set_revoked ''id-1'' demo_table) ''wea_AAAA'' ''arn'')
     = Inl (Error ''Unauthorized'')"
proof -
  have a: "snd (validateApiKey demo_lib demo_env demo_table ''wea_AAAA'' ''arn'')
     = Inr (generatePolicy ''alice'' Allow ''arn''
         (Some [(''userId'', ''alice''), (''tokenId'', ''id-1''), (''authType'', ''apikey'')]))"
    unfolding validateApiKey_accepts_iff [of demo_lib demo_env demo_table "''wea_AAAA''" "''arn''"]
    by (simp add: demo_defs query_TokenHashIndex_def)
  have b: "snd (validateApiKey demo_lib demo_env (set_revoked ''id-1'' demo_table) ''wea_AAAA'' ''arn'')
     = Inl (Error ''Unauthorized'')"
    unfolding validateApiKey_accepts_iff
      [of demo_lib demo_env "set_revoked ''id-1'' demo_table" "''wea_AAAA''" "''arn''"]
    by (simp add: demo_defs query_TokenHashIndex_def)
  from a b show ?thesis by simp
qed

text \<open>
  Where the claim as stated fails: the record of \<open>bob\<close> has \<^verbatim>\<open>expiresAt\<close> 100, the clock
  reads 100000 milliseconds, so the current time is 100 seconds and \<^verbatim>\<open>expiresAt\<close> is not
  strictly greater than it; the token is accepted all the same.
\<close>

theorem validateApiKey_expiry_counterexample:
  "query_TokenHashIndex (sha256_hex demo_lib ''wea_BBBB'') demo_table
     = [demo_item ''id-2'' ''bob'' ''wea_BBBB'' (Some 100) False]
   \<and> revoked (demo_item ''id-2'' ''bob'' ''wea_BBBB'' (Some 100) False) = False
   \<and> expiresAt (demo_item ''id-2'' ''bob'' ''wea_BBBB'' (Some 100) False) = Some 100
   \<and> \<not> (100 > Date_now demo_env div 1000)
   \<and> snd (validateApiKey demo_lib demo_env demo_table ''wea_BBBB'' ''arn'')
     = Inr (generatePolicy ''bob'' Allow ''arn''
         (Some [(''userId'', ''bob''), (''tokenId'', ''id-2''), (''authType'', ''apikey'')]))"
  by (simp add: demo_defs query_TokenHashIndex_def validateApiKey_def unauthorized_def)

subsection \<open>Credentials with no recognised prefix\<close>

text \<open>
  Claim C7, as the code has it. For every credential that starts neither with
  \<^verbatim>\<open>Bearer \<close> nor with \<^verbatim>\<open>wea_\<close>, the handler throws \<^verbatim>\<open>Error('Invalid token format')\<close>
  inside its own \<^verbatim>\<open>try\<close> block, whose \<^verbatim>\<open>catch\<close> clause logs that error and throws
  \<^verbatim>\<open>Error('Unauthorized')\<close> in its place: the request is denied with \<^verbatim>\<open>Unauthorized\<close>,
  the format error is only logged, and the invocation neither queries the token table
  nor calls the JWT verifier.
\<close>

theorem unrecognised_prefix_denied:
  assumes "\<not> startsWith cred ''Bearer ''" and "\<not> startsWith cred ''wea_''"
  shows "authorizer_handler L E tbl cred arn
           = ([ConsoleError (Error ''Invalid token format'')], Inl (Error ''Unauthorized''))
       \<and> (\<forall>a \<in> set (fst (authorizer_handler L E tbl cred arn)).
             (\<forall>t. a \<noteq> Verify t) \<and> (\<forall>h. a \<noteq> QueryTokenHash h))"
  using assms by (simp add: authorizer_handler_def unauthorized_def)

theorem unrecognised_prefix_denied_witness:
  "\<not> startsWith ''garbage'' ''Bearer '' \<and> \<not> startsWith ''garbage'' ''wea_''
   \<and> authorizer_handler demo_lib demo_env demo_table ''garbage'' ''arn''
       = ([ConsoleError (Error ''Invalid token format'')], Inl (Error ''Unauthorized''))"
proof -
  have b: "\<not> startsWith ''garbage'' ''Bearer ''" and w: "\<not> startsWith ''garbage'' ''wea_''"
    by (simp_all add: startsWith_def)
  from unrecognised_prefix_denied [OF b w, of demo_lib demo_env demo_table "''arn''"] b w
  show ?thesis by simp
qed

text \<open>What the handler throws for \<^verbatim>\<open>garbage\<close> is \<^verbatim>\<open>Unauthorized\<close>, not the format error.\<close>

theorem garbage_counterexample:
  "snd (authorizer_handler demo_lib demo_env demo_table ''garbage'' ''arn'')
     = Inl (Error ''Unauthorized'')
   \<and> snd (authorizer_handler demo_lib demo_env demo_table ''garbage'' ''arn'')
     \<noteq> Inl (Error ''Invalid token format'')"
  by (simp add: authorizer_handler_def unauthorized_def startsWith_def)

subsection \<open>Credentials that start with the Bearer marker\<close>

text \<open>
  Claim C10. For every credential that starts with \<^verbatim>\<open>Bearer \<close>, the handler passes the
  rest of the string to \<^verbatim>\<open>validateCognitoToken\<close> and to nothing else: the outcome is the
  same for every token table, and the invocation sends no query to the table. If the JWT
  verifier rejects the rest of the string, the request is denied with \<^verbatim>\<open>Unauthorized\<close>,
  also when that rest is an API key which \<^verbatim>\<open>validateApiKey\<close> accepts.
\<close>

theorem bearer_marker_first:
  assumes "startsWith cred ''Bearer ''"
  shows "authorizer_handler L E tbl cred arn
           = rethrow (validateCognitoToken E (drop 7 cred) arn)
       \<and> authorizer_handler L E tbl cred arn = authorizer_handler L E tbl' cred arn
       \<and> (\<forall>h. QueryTokenHash h \<notin> set (fst (authorizer_handler L E tbl cred arn)))
       \<and> (\<forall>e. verifier_verify E (drop 7 cred) = Inl e \<longrightarrow>
             snd (authorizer_handler L E tbl cred arn) = Inl (Error ''Unauthorized''))"
  using assms
  by (auto simp: authorizer_handler_def rethrow_def validateCognitoToken_def unauthorized_def
           split: sum.splits)

theorem bearer_marker_first_witness:
  "startsWith ''Bearer wea_AAAA'' ''Bearer ''
   \<and> snd (validateApiKey demo_lib demo_env demo_table (drop 7 ''Bearer wea_AAAA'') ''arn'')
       = Inr (generatePolicy ''alice'' Allow ''arn''
           (Some [(''userId'', ''alice''), (''tokenId'', ''id-1''), (''authType'', ''apikey'')]))
   \<and> snd (authorizer_handler demo_lib demo_env demo_table ''Bearer wea_AAAA'' ''arn'')
       = Inl (Error ''Unauthorized'')
   \<and> QueryTokenHash (sha256_hex demo_lib ''wea_AAAA'')
       \<notin> set (fst (authorizer_handler demo_lib demo_env demo_table ''Bearer wea_AAAA'' ''arn''))"
proof -
  have s: "startsWith ''Bearer wea_AAAA'' ''Bearer ''"
    by (simp add: startsWith_def)
  have v: "verifier_verify demo_env (drop 7 ''Bearer wea_AAAA'') = Inl (Error ''Invalid JWT'')"
    by (simp add: demo_env_def)
  have k: "snd (validateApiKey demo_lib demo_env demo_table (drop 7 ''Bearer wea_AAAA'') ''arn'')
       = Inr (generatePolicy ''alice'' Allow ''arn''
           (Some [(''userId'', ''alice''), (''tokenId'', ''id-1''), (''authType'', ''apikey'')]))"
    by (simp add: demo_defs query_TokenHashIndex_def validateApiKey_def)
  from bearer_marker_first [OF s, of demo_lib demo_env demo_table "''arn''" demo_table] v s k
  show ?thesis by blast
qed

subsection \<open>No token hash in any response\<close>

text \<open>
  Claim C3. Whatever the event and whatever the table holds (active, expired or revoked
  tokens), no token object in the result of the token manager has a \<^verbatim>\<open>tokenHash\<close>
  property. Issue answers 201 only with the plaintext token and the stored record
  without its \<^verbatim>\<open>tokenHash\<close>; List answers with the caller's records, each without its
  \<^verbatim>\<open>tokenHash\<close>.
\<close>

theorem responses_without_tokenHash:
  "(\<forall>obj \<in> set (token_objects (result_body (snd (tokens_handler L E tbl event)))).
       tokenHash obj = None)
   \<and> (\<forall>tbl' r. createToken L E tbl event user = Inr (tbl', r) \<and> statusCode r = 201 \<longrightarrow>
         (\<exists>b request. event_body event = Some b \<and> JSON_parse L b = Inr request
            \<and> tbl' = put_item (new_apiToken L E request user) tbl
            \<and> result_body r = CreateTokenResponse (new_token E)
                 ((new_apiToken L E request user)\<lparr>tokenHash := None\<rparr>)))
   \<and> (\<forall>tbl' r. listTokens E tbl user = Inr (tbl', r) \<longrightarrow>
         result_body r = ListTokensResponse
           (map (\<lambda>item. item\<lparr>tokenHash := None\<rparr>) (query_UserIdIndex user tbl)))"
proof (intro conjI)
  show "\<forall>obj \<in> set (token_objects (result_body (snd (tokens_handler L E tbl event)))).
          tokenHash obj = None"
    by (auto simp: tokens_handler_def route_def createToken_def listTokens_def revokeToken_def
          internal_server_error_def reply_def
          split: option.splits sum.splits if_splits)
  show "\<forall>tbl' r. createToken L E tbl event user = Inr (tbl', r) \<and> statusCode r = 201 \<longrightarrow>
         (\<exists>b request. event_body event = Some b \<and> JSON_parse L b = Inr request
            \<and> tbl' = put_item (new_apiToken L E request user) tbl
            \<and> result_body r = CreateTokenResponse (new_token E)
                 ((new_apiToken L E request user)\<lparr>tokenHash := None\<rparr>))"
    by (auto simp: createToken_def reply_def split: option.splits sum.splits if_splits)
  show "\<forall>tbl' r. listTokens E tbl user = Inr (tbl', r) \<longrightarrow>
         result_body r = ListTokensResponse
           (map (\<lambda>item. item\<lparr>tokenHash := None\<rparr>) (query_UserIdIndex user tbl))"
    by (auto simp: listTokens_def reply_def split: option.splits)
qed

text \<open>On the demo table: \<open>bob\<close> lists his tokens, and \<open>alice\<close> issues one.\<close>

theorem responses_without_tokenHash_witness:
  "snd (tokens_handler demo_lib demo_env demo_table (demo_event ''bob'' ''GET'' None None))
     = reply 200 (ListTokensResponse
         [(demo_item ''id-2'' ''bob'' ''wea_BBBB'' (Some 100) False)\<lparr>tokenHash := None\<rparr>])
   \<and> tokenHash ((demo_item ''id-2'' ''bob'' ''wea_BBBB'' (Some 100) False)\<lparr>tokenHash := None\<rparr>) = None
   \<and> (\<exists>info. snd (tokens_handler demo_lib demo_env demo_table
                    (demo_event ''alice'' ''POST'' (Some ''CI'') None))
         = reply 201 (CreateTokenResponse ''wea_Zm9vYmFy'' info) \<and> tokenHash info = None)"
proof -
  let ?get = "demo_event ''bob'' ''GET'' None None"
  let ?post = "demo_event ''alice'' ''POST'' (Some ''CI'') None"
  let ?item = "(demo_item ''id-2'' ''bob'' ''wea_BBBB'' (Some 100) False)\<lparr>tokenHash := None\<rparr>"
  let ?info = "(new_apiToken demo_lib demo_env \<lparr>req_name = Some ''CI'', expiresInDays = None\<rparr> ''alice'')
                 \<lparr>tokenHash := None\<rparr>"
  have l: "snd (tokens_handler demo_lib demo_env demo_table ?get)
             = reply 200 (ListTokensResponse [?item])"
    by (simp add: tokens_handler_def route_def listTokens_def query_UserIdIndex_def demo_defs)
  have c: "snd (tokens_handler demo_lib demo_env demo_table ?post)
             = reply 201 (CreateTokenResponse ''wea_Zm9vYmFy'' ?info)"
    by (simp add: tokens_handler_def route_def createToken_def demo_defs trim_def
          is_white_space_def MAX_EXPIRY_DAYS_def new_token_def TOKEN_PREFIX_def)
  have "?item \<in> set (token_objects (result_body (snd (tokens_handler demo_lib demo_env demo_table ?get))))"
    unfolding l by (simp add: reply_def)
  with responses_without_tokenHash [of demo_lib demo_env demo_table ?get]
  have 1: "tokenHash ?item = None" by blast
  have "?info \<in> set (token_objects (result_body (snd (tokens_handler demo_lib demo_env demo_table ?post))))"
    unfolding c by (simp add: reply_def)
  with responses_without_tokenHash [of demo_lib demo_env demo_table ?post]
  have 2: "tokenHash ?info = None" by blast
  from l c 1 2 show ?thesis by blast
qed

subsection \<open>Expiry given at issue time\<close>

text \<open>
  Claim C6. For every Issue request whose body parses: if \<^verbatim>\<open>expiresInDays\<close> is present and
  less than 1 or greater than 365, \<^verbatim>\<open>createToken\<close> answers 400 with a validation message
  and the table is left as it was; if \<^verbatim>\<open>expiresInDays\<close> is absent (and the name is not blank
  and the \<^verbatim>\<open>PutCommand\<close> does not fail) the token is issued with status 201, and neither the
  record put into the table nor the \<^verbatim>\<open>tokenInfo\<close> of the answer has an \<^verbatim>\<open>expiresAt\<close>.
\<close>

theorem expiresInDays_checked:
  assumes "event_body event = Some b" and "JSON_parse L b = Inr request"
  shows "(\<forall>d. expiresInDays request = Some d \<and> (d < 1 \<or> 365 < d) \<longrightarrow>
            (\<exists>m. createToken L E tbl event user = Inr (tbl, reply 400 (Message m))))
       \<and> (\<forall>d n. expiresInDays request = Some d \<and> (d < 1 \<or> 365 < d) \<and> b \<noteq> []
              \<and> req_name request = Some n \<and> trim n \<noteq> [] \<longrightarrow>
            createToken L E tbl event user
              = Inr (tbl, reply 400 (Message ''Expiry must be between 1 and 365 days'')))
       \<and> (\<forall>n. expiresInDays request = None \<and> b \<noteq> [] \<and> req_name request = Some n \<and> trim n \<noteq> []
              \<and> send_fails E PutCommand = None \<longrightarrow>
            (\<exists>a. createToken L E tbl event user
                    = Inr (put_item a tbl,
                           reply 201 (CreateTokenResponse (new_token E) (a\<lparr>tokenHash := None\<rparr>)))
                \<and> get_item (uuidv4 E) (put_item a tbl) = Some a
                \<and> expiresAt a = None
                \<and> expiresAt (a\<lparr>tokenHash := None\<rparr>) = None))"
proof (intro conjI allI impI)
  fix d assume "expiresInDays request = Some d \<and> (d < 1 \<or> 365 < d)"
  with assms show "\<exists>m. createToken L E tbl event user = Inr (tbl, reply 400 (Message m))"
    by (auto simp: createToken_def MAX_EXPIRY_DAYS_def split: option.splits)
next
  fix d n
  assume h: "expiresInDays request = Some d \<and> (d < 1 \<or> 365 < d) \<and> b \<noteq> []
               \<and> req_name request = Some n \<and> trim n \<noteq> []"
  then have "n \<noteq> []" by (auto simp: trim_def)
  with h assms show "createToken L E tbl event user
              = Inr (tbl, reply 400 (Message ''Expiry must be between 1 and 365 days''))"
    by (auto simp: createToken_def MAX_EXPIRY_DAYS_def)
next
  fix n
  assume h: "expiresInDays request = None \<and> b \<noteq> [] \<and> req_name request = Some n \<and> trim n \<noteq> []
               \<and> send_fails E PutCommand = None"
  then have "n \<noteq> []" by (auto simp: trim_def)
  with h assms have
    "createToken L E tbl event user
       = Inr (put_item (new_apiToken L E request user) tbl,
              reply 201 (CreateTokenResponse (new_token E)
                ((new_apiToken L E request user)\<lparr>tokenHash := None\<rparr>)))"
    by (simp add: createToken_def)
  moreover have "get_item (uuidv4 E) (put_item (new_apiToken L E request user) tbl)
                   = Some (new_apiToken L E request user)"
    by (simp add: get_item_put_item new_apiToken_def)
  moreover have "expiresAt (new_apiToken L E request user) = None"
    using h by (simp add: new_apiToken_def new_expiresAt_def)
  ultimately show "\<exists>a. createToken L E tbl event user
                    = Inr (put_item a tbl,
                           reply 201 (CreateTokenResponse (new_token E) (a\<lparr>tokenHash := None\<rparr>)))
                \<and> get_item (uuidv4 E) (put_item a tbl) = Some a
                \<and> expiresAt a = None
                \<and> expiresAt (a\<lparr>tokenHash := None\<rparr>) = None"
    by auto
qed

text \<open>On the demo world: 400 days are refused and nothing is stored; a request without
  \<^verbatim>\<open>expiresInDays\<close> is issued without \<^verbatim>\<open>expiresAt\<close>.\<close>

theorem expiresInDays_checked_witness:
  "(\<exists>m. createToken demo_lib demo_env demo_table
           (demo_event ''alice'' ''POST'' (Some ''CI/400'') None) ''alice''
         = Inr (demo_table, reply 400 (Message m)))
   \<and> (\<exists>a. createToken demo_lib demo_env demo_table
             (demo_event ''alice'' ''POST'' (Some ''CI'') None) ''alice''
           = Inr (put_item a demo_table,
                  reply 201 (CreateTokenResponse (new_token demo_env) (a\<lparr>tokenHash := None\<rparr>)))
         \<and> get_item ''id-3'' (put_item a demo_table) = Some a
         \<and> expiresAt a = None)"
proof -
  have b1: "event_body (demo_event ''alice'' ''POST'' (Some ''CI/400'') None) = Some ''CI/400''"
    and b2: "event_body (demo_event ''alice'' ''POST'' (Some ''CI'') None) = Some ''CI''"
    by (simp_all add: demo_event_def)
  have p1: "JSON_parse demo_lib ''CI/400'' = Inr \<lparr>req_name = Some ''CI'', expiresInDays = Some 400\<rparr>"
    and p2: "JSON_parse demo_lib ''CI'' = Inr \<lparr>req_name = Some ''CI'', expiresInDays = None\<rparr>"
    by (simp_all add: demo_lib_def)
  have t: "trim ''CI'' \<noteq> []"
    by (simp add: trim_def is_white_space_def)
  have f: "send_fails demo_env PutCommand = None" and u: "uuidv4 demo_env = ''id-3''"
    by (simp_all add: demo_env_def)
  from expiresInDays_checked [OF b1 p1, of demo_env demo_table "''alice''"]
  have 1: "\<exists>m. createToken demo_lib demo_env demo_table
           (demo_event ''alice'' ''POST'' (Some ''CI/400'') None) ''alice''
         = Inr (demo_table, reply 400 (Message m))"
    by auto
  from expiresInDays_checked [OF b2 p2, of demo_env demo_table "''alice''"] t f
  have 2: "\<exists>a. createToken demo_lib demo_env demo_table
             (demo_event ''alice'' ''POST'' (Some ''CI'') None) ''alice''
           = Inr (put_item a demo_table,
                  reply 201 (CreateTokenResponse (new_token demo_env) (a\<lparr>tokenHash := None\<rparr>)))
         \<and> get_item ''id-3'' (put_item a demo_table) = Some a
         \<and> expiresAt a = None"
    unfolding u by simp
  from 1 2 show ?thesis by simp
qed

subsection \<open>Failures inside an operation\<close>

text \<open>
  Claim C9, as the code has it. Whatever is thrown out of an operation of the token
  manager is answered by the \<^verbatim>\<open>catch\<close> clause of the handler with status 500, the fixed
  message \<^verbatim>\<open>Internal server error\<close> and an \<^verbatim>\<open>error\<close> property holding the \<^verbatim>\<open>message\<close> of
  the thrown \<^verbatim>\<open>Error\<close> (\<^verbatim>\<open>Unknown error\<close> when the thrown value is not an \<^verbatim>\<open>Error\<close>); the
  table is left as it was. A failing \<^verbatim>\<open>QueryCommand\<close> in List, \<^verbatim>\<open>GetCommand\<close> or
  \<^verbatim>\<open>UpdateCommand\<close> in Revoke and \<^verbatim>\<open>PutCommand\<close> in Issue are such throws.
\<close>

theorem internal_failure_answer:
  assumes "claims_sub event = Some user" and "user \<noteq> []"
  shows "(\<forall>e. route L E tbl event user = Inl e \<longrightarrow>
            tokens_handler L E tbl event
              = (tbl, reply 500 (InternalError ''Internal server error''
                   (case e of Error m \<Rightarrow> m | NonError \<Rightarrow> ''Unknown error''))))
       \<and> (\<forall>e. httpMethod event = ''GET'' \<and> send_fails E QueryCommand = Some e \<longrightarrow>
            route L E tbl event user = Inl e)
       \<and> (\<forall>e k. httpMethod event = ''DELETE'' \<and> pathParameters_id event = Some k \<and> k \<noteq> []
              \<and> send_fails E GetCommand = Some e \<longrightarrow>
            route L E tbl event user = Inl e)
       \<and> (\<forall>e k item. httpMethod event = ''DELETE'' \<and> pathParameters_id event = Some k \<and> k \<noteq> []
              \<and> send_fails E GetCommand = None \<and> get_item k tbl = Some item
              \<and> userId item = user \<and> send_fails E UpdateCommand = Some e \<longrightarrow>
            route L E tbl event user = Inl e)
       \<and> (\<forall>e b request n. httpMethod event = ''POST'' \<and> event_body event = Some b \<and> b \<noteq> []
              \<and> JSON_parse L b = Inr request \<and> req_name request = Some n \<and> trim n \<noteq> []
              \<and> (\<forall>d. expiresInDays request = Some d \<longrightarrow> 1 \<le> d \<and> d \<le> 365)
              \<and> send_fails E PutCommand = Some e \<longrightarrow>
            route L E tbl event user = Inl e)"
proof (intro conjI allI impI)
  fix e assume "route L E tbl event user = Inl e"
  with assms show "tokens_handler L E tbl event
              = (tbl, reply 500 (InternalError ''Internal server error''
                   (case e of Error m \<Rightarrow> m | NonError \<Rightarrow> ''Unknown error'')))"
    by (simp add: tokens_handler_def internal_server_error_def)
next
  fix e assume "httpMethod event = ''GET'' \<and> send_fails E QueryCommand = Some e"
  then show "route L E tbl event user = Inl e"
    by (simp add: route_def listTokens_def)
next
  fix e k
  assume "httpMethod event = ''DELETE'' \<and> pathParameters_id event = Some k \<and> k \<noteq> []
            \<and> send_fails E GetCommand = Some e"
  then show "route L E tbl event user = Inl e"
    by (simp add: route_def revokeToken_def)
next
  fix e k item
  assume "httpMethod event = ''DELETE'' \<and> pathParameters_id event = Some k \<and> k \<noteq> []
              \<and> send_fails E GetCommand = None \<and> get_item k tbl = Some item
              \<and> userId item = user \<and> send_fails E UpdateCommand = Some e"
  then show "route L E tbl event user = Inl e"
    by (simp add: route_def revokeToken_def)
next
  fix e b request n
  assume h: "httpMethod event = ''POST'' \<and> event_body event = Some b \<and> b \<noteq> []
              \<and> JSON_parse L b = Inr request \<and> req_name request = Some n \<and> trim n \<noteq> []
              \<and> (\<forall>d. expiresInDays request = Some d \<longrightarrow> 1 \<le> d \<and> d \<le> 365)
              \<and> send_fails E PutCommand = Some e"
  then have "n \<noteq> []" by (auto simp: trim_def)
  with h show "route L E tbl event user = Inl e"
    by (auto simp: route_def createToken_def MAX_EXPIRY_DAYS_def split: option.splits)
qed

text \<open>The table cannot be reached while \<open>bob\<close> lists his tokens; the text of the failure is
  handed to him in the body of the answer.\<close>

theorem internal_failure_answer_witness:
  "tokens_handler demo_lib demo_outage demo_table (demo_event ''bob'' ''GET'' None None)
     = (demo_table, reply 500 (InternalError ''Internal server error''
          ''Requested resource not found: Table: ApiTokens''))
   \<and> tokens_handler demo_lib demo_outage demo_table
         (demo_event ''bob'' ''DELETE'' None (Some ''id-2''))
     = (demo_table, reply 500 (InternalError ''Internal server error''
          ''Requested resource not found: Table: ApiTokens''))
   \<and> tokens_handler demo_lib demo_outage demo_table
         (demo_event ''bob'' ''POST'' (Some ''CI'') None)
     = (demo_table, reply 500 (InternalError ''Internal server error''
          ''Requested resource not found: Table: ApiTokens''))
   \<and> tokens_handler demo_lib
         (demo_env\<lparr>send_fails := (\<lambda>c. if c = UpdateCommand then Some NonError else None)\<rparr>)
         demo_table (demo_event ''bob'' ''DELETE'' None (Some ''id-2''))
     = (demo_table, reply 500 (InternalError ''Internal server error'' ''Unknown error''))"
proof -
  let ?get = "demo_event ''bob'' ''GET'' None None"
  let ?del = "demo_event ''bob'' ''DELETE'' None (Some ''id-2'')"
  let ?post = "demo_event ''bob'' ''POST'' (Some ''CI'') None"
  let ?E = "demo_env\<lparr>send_fails := (\<lambda>c. if c = UpdateCommand then Some NonError else None)\<rparr>"
  let ?e = "Error ''Requested resource not found: Table: ApiTokens''"
  have n: "''bob'' \<noteq> []" by simp
  have f: "send_fails demo_outage QueryCommand = Some ?e" "send_fails demo_outage GetCommand = Some ?e"
    "send_fails demo_outage PutCommand = Some ?e"
    by (simp_all add: demo_outage_def)
  have g: "send_fails ?E GetCommand = None" "send_fails ?E UpdateCommand = Some NonError"
    by simp_all
  have 1: "tokens_handler demo_lib demo_outage demo_table ?get
     = (demo_table, reply 500 (InternalError ''Internal server error''
          ''Requested resource not found: Table: ApiTokens''))"
  proof -
    have s: "claims_sub ?get = Some ''bob''" and m: "httpMethod ?get = ''GET''"
      by (simp_all add: demo_event_def)
    from internal_failure_answer [OF s n, of demo_lib demo_outage demo_table] m f(1)
    show ?thesis by simp
  qed
  have 2: "tokens_handler demo_lib demo_outage demo_table ?del
     = (demo_table, reply 500 (InternalError ''Internal server error''
          ''Requested resource not found: Table: ApiTokens''))"
  proof -
    have s: "claims_sub ?del = Some ''bob''" and m: "httpMethod ?del = ''DELETE''"
      and p: "pathParameters_id ?del = Some ''id-2''"
      by (simp_all add: demo_event_def)
    from internal_failure_answer [OF s n, of demo_lib demo_outage demo_table] m p f(2)
    show ?thesis by simp
  qed
  have 3: "tokens_handler demo_lib demo_outage demo_table ?post
     = (demo_table, reply 500 (InternalError ''Internal server error''
          ''Requested resource not found: Table: ApiTokens''))"
  proof -
    have s: "claims_sub ?post = Some ''bob''" and m: "httpMethod ?post = ''POST''"
      and b: "event_body ?post = Some ''CI''"
      by (simp_all add: demo_event_def)
    have p: "JSON_parse demo_lib ''CI'' = Inr \<lparr>req_name = Some ''CI'', expiresInDays = None\<rparr>"
      by (simp add: demo_lib_def)
    have t: "trim ''CI'' \<noteq> []"
      by (simp add: trim_def is_white_space_def)
    have "route demo_lib demo_outage demo_table ?post ''bob'' = Inl ?e"
      using internal_failure_answer [OF s n, of demo_lib demo_outage demo_table] m b p t f(3)
      by simp
    with internal_failure_answer [OF s n, of demo_lib demo_outage demo_table]
    show ?thesis by simp
  qed
  have 4: "tokens_handler demo_lib ?E demo_table ?del
     = (demo_table, reply 500 (InternalError ''Internal server error'' ''Unknown error''))"
  proof -
    have s: "claims_sub ?del = Some ''bob''" and m: "httpMethod ?del = ''DELETE''"
      and p: "pathParameters_id ?del = Some ''id-2''"
      by (simp_all add: demo_event_def)
    have i: "get_item ''id-2'' demo_table = Some (demo_item ''id-2'' ''bob'' ''wea_BBBB'' (Some 100) False)"
      and u: "userId (demo_item ''id-2'' ''bob'' ''wea_BBBB'' (Some 100) False) = ''bob''"
      by (simp_all add: demo_table_def demo_item_def)
    have "route demo_lib ?E demo_table ?del ''bob'' = Inl NonError"
      using internal_failure_answer [OF s n, of demo_lib ?E demo_table] m p g i u
      by simp
    with internal_failure_answer [OF s n, of demo_lib ?E demo_table]
    show ?thesis by simp
  qed
  from 1 2 3 4 show ?thesis by simp
qed

theorem internal_detail_counterexample:
  "result_body (snd (tokens_handler demo_lib demo_outage demo_table
                       (demo_event ''bob'' ''GET'' None None)))
     = InternalError ''Internal server error'' ''Requested resource not found: Table: ApiTokens''
   \<and> send_fails demo_outage QueryCommand
       = Some (Error ''Requested resource not found: Table: ApiTokens'')"
  by (simp add: tokens_handler_def route_def listTokens_def internal_server_error_def reply_def
        demo_outage_def demo_event_def)

subsection \<open>Issue, verify, revoke, verify\<close>

lemma new_token_is_api_key:
  "startsWith (new_token E) ''wea_'' \<and> \<not> startsWith (new_token E) ''Bearer ''"
  by (simp add: startsWith_def new_token_def TOKEN_PREFIX_def)

lemma trim_not_empty: "trim n \<noteq> [] \<Longrightarrow> n \<noteq> []"
  by (auto simp: trim_def)

text \<open>
  Claim C2, as the code has it. A user issues a token with a name that is not empty
  after trimming white space and with no expiry; the hash of the new plaintext is not yet
  in the table, and no command fails. Then Issue answers 201 with the plaintext; the
  authorizer accepts that plaintext with \<^verbatim>\<open>authType\<close> \<^verbatim>\<open>apikey\<close> and the issuing user's
  \<^verbatim>\<open>userId\<close>, at any later time; the user's revoke of the returned id answers 200; and
  after it the authorizer denies the same plaintext with \<^verbatim>\<open>Unauthorized\<close>.
\<close>

theorem issue_verify_revoke_verify:
  assumes body: "event_body event = Some b" "b \<noteq> []" "JSON_parse L b = Inr request"
    and name: "req_name request = Some n" "trim n \<noteq> []"
    and noexp: "expiresInDays request = None"
    and fresh: "query_TokenHashIndex (sha256_hex L (new_token E1)) tbl = []"
    and ok1: "send_fails E1 PutCommand = None"
    and ok2: "send_fails E2 QueryCommand = None"
    and del: "pathParameters_id del = Some (uuidv4 E1)" "uuidv4 E1 \<noteq> []"
    and ok3: "send_fails E3 GetCommand = None" "send_fails E3 UpdateCommand = None"
    and ok4: "send_fails E4 QueryCommand = None"
  shows "\<exists>tbl1 info tbl2.
      createToken L E1 tbl event user
        = Inr (tbl1, reply 201 (CreateTokenResponse (new_token E1) info))
    \<and> id_attr info = uuidv4 E1
    \<and> snd (authorizer_handler L E2 tbl1 (new_token E1) arn)
        = Inr (generatePolicy user Allow arn
            (Some [(''userId'', user), (''tokenId'', uuidv4 E1), (''authType'', ''apikey'')]))
    \<and> revokeToken E3 tbl1 del user
        = Inr (tbl2, reply 200 (Message ''Token revoked successfully''))
    \<and> snd (authorizer_handler L E4 tbl2 (new_token E1) arn) = Inl (Error ''Unauthorized'')"
proof -
  let ?a = "new_apiToken L E1 request user"
  let ?h = "sha256_hex L (new_token E1)"
  let ?tbl1 = "put_item ?a tbl"
  let ?tbl2 = "set_revoked (uuidv4 E1) ?tbl1"
  have a: "id_attr ?a = uuidv4 E1" "userId ?a = user" "tokenHash ?a = Some ?h"
    "revoked ?a = False" "expiresAt ?a = None"
    using noexp by (simp_all add: new_apiToken_def new_expiresAt_def)
  have n: "n \<noteq> []" using name(2) by (rule trim_not_empty)
  have issue: "createToken L E1 tbl event user
        = Inr (?tbl1, reply 201 (CreateTokenResponse (new_token E1) (?a\<lparr>tokenHash := None\<rparr>)))"
    using body name noexp ok1 n by (simp add: createToken_def)
  have q1: "query_TokenHashIndex ?h ?tbl1 = [?a]"
    using fresh a(3) by (rule query_hash_put_item)
  have v1: "snd (authorizer_handler L E2 ?tbl1 (new_token E1) arn)
        = Inr (generatePolicy user Allow arn
            (Some [(''userId'', user), (''tokenId'', uuidv4 E1), (''authType'', ''apikey'')]))"
    using new_token_is_api_key [of E1] ok2 q1 a
    by (simp add: authorizer_handler_def rethrow_def validateApiKey_def)
  have g: "get_item (uuidv4 E1) ?tbl1 = Some ?a"
    using a(1) by (simp add: get_item_put_item)
  have rv: "revokeToken E3 ?tbl1 del user
        = Inr (?tbl2, reply 200 (Message ''Token revoked successfully''))"
    using del ok3 g a(2) by (simp add: revokeToken_def)
  have q2: "query_TokenHashIndex ?h ?tbl2 = [?a\<lparr>revoked := True\<rparr>]"
    using query_hash_revoked_put_item [OF fresh a(3)] a(1) by simp
  have v2: "snd (authorizer_handler L E4 ?tbl2 (new_token E1) arn) = Inl (Error ''Unauthorized'')"
    using new_token_is_api_key [of E1] ok4 q2
    by (simp add: authorizer_handler_def rethrow_def validateApiKey_def unauthorized_def)
  have "id_attr (?a\<lparr>tokenHash := None\<rparr>) = uuidv4 E1"
    using a(1) by simp
  with issue v1 rv v2 show ?thesis by blast
qed

text \<open>On the demo world: \<open>alice\<close> issues a token named \<^verbatim>\<open>CI\<close> into the demo table.\<close>

theorem issue_verify_revoke_verify_witness:
  "\<exists>tbl1 info tbl2.
      createToken demo_lib demo_env demo_table (demo_event ''alice'' ''POST'' (Some ''CI'') None) ''alice''
        = Inr (tbl1, reply 201 (CreateTokenResponse ''wea_Zm9vYmFy'' info))
    \<and> id_attr info = ''id-3''
    \<and> snd (authorizer_handler demo_lib demo_env tbl1 ''wea_Zm9vYmFy'' ''arn'')
        = Inr (generatePolicy ''alice'' Allow ''arn''
            (Some [(''userId'', ''alice''), (''tokenId'', ''id-3''), (''authType'', ''apikey'')]))
    \<and> revokeToken demo_env tbl1 (demo_event ''alice'' ''DELETE'' None (Some ''id-3'')) ''alice''
        = Inr (tbl2, reply 200 (Message ''Token revoked successfully''))
    \<and> snd (authorizer_handler demo_lib demo_env tbl2 ''wea_Zm9vYmFy'' ''arn'')
        = Inl (Error ''Unauthorized'')"
proof -
  have b: "event_body (demo_event ''alice'' ''POST'' (Some ''CI'') None) = Some ''CI''"
    by (simp add: demo_event_def)
  have ne: "''CI'' \<noteq> []" by simp
  have p: "JSON_parse demo_lib ''CI'' = Inr \<lparr>req_name = Some ''CI'', expiresInDays = None\<rparr>"
    by (simp add: demo_lib_def)
  have nm: "req_name \<lparr>req_name = Some ''CI'', expiresInDays = None\<rparr> = Some ''CI''"
    and nx: "expiresInDays \<lparr>req_name = Some ''CI'', expiresInDays = None\<rparr> = None"
    by simp_all
  have t: "trim ''CI'' \<noteq> []"
    by (simp add: trim_def is_white_space_def)
  have tok: "new_token demo_env = ''wea_Zm9vYmFy''"
    by (simp add: new_token_def TOKEN_PREFIX_def demo_env_def)
  have fresh: "query_TokenHashIndex (sha256_hex demo_lib (new_token demo_env)) demo_table = []"
    unfolding tok by (simp add: query_TokenHashIndex_def demo_defs)
  have f: "send_fails demo_env PutCommand = None" "send_fails demo_env QueryCommand = None"
    "send_fails demo_env GetCommand = None" "send_fails demo_env UpdateCommand = None"
    by (simp_all add: demo_env_def)
  have u: "uuidv4 demo_env = ''id-3''"
    by (simp add: demo_env_def)
  have d: "pathParameters_id (demo_event ''alice'' ''DELETE'' None (Some ''id-3'')) = Some (uuidv4 demo_env)"
    by (simp add: demo_event_def demo_env_def)
  have un: "uuidv4 demo_env \<noteq> []"
    by (simp add: demo_env_def)
  from issue_verify_revoke_verify
    [OF b ne p nm t nx fresh f(1) f(2) d un f(3) f(4) f(2), of "''alice''" "''arn''"]
  show ?thesis unfolding tok u .
qed

text \<open>
  Where the claim as stated fails: a name of one space is not empty, yet Issue answers
  400 and returns no plaintext.
\<close>

theorem blank_name_counterexample:
  "JSON_parse demo_lib '' '' = Inr \<lparr>req_name = Some '' '', expiresInDays = None\<rparr>
   \<and> '' '' \<noteq> []
   \<and> createToken demo_lib demo_env demo_table (demo_event ''alice'' ''POST'' (Some '' '') None) ''alice''
       = Inr (demo_table, reply 400 (Message ''Token name is required''))"
  by (simp add: createToken_def demo_lib_def demo_event_def trim_def is_white_space_def)

subsection \<open>The revoked flag over sequences of invocations\<close>

lemma createToken_table:
  "createToken L E tbl event user = Inr (tbl', r) \<Longrightarrow>
     (tbl' = tbl \<and> statusCode r = 400)
     \<or> (\<exists>request. tbl' = put_item (new_apiToken L E request user) tbl \<and> statusCode r = 201)"
  by (auto simp: createToken_def reply_def split: option.splits sum.splits if_splits)

lemma listTokens_table: "listTokens E tbl user = Inr (tbl', r) \<Longrightarrow> tbl' = tbl"
  by (auto simp: listTokens_def split: option.splits)

lemma revokeToken_table:
  "revokeToken E tbl event user = Inr (tbl', r) \<Longrightarrow> tbl' = tbl \<or> (\<exists>j. tbl' = set_revoked j tbl)"
  by (auto simp: revokeToken_def split: option.splits if_splits)

lemma revoked_update_same: "revoked item \<Longrightarrow> item\<lparr>revoked := True\<rparr> = item"
  by (cases item) simp

lemma route_keeps_item:
  assumes r: "route L E tbl event user = Inr (tbl', res)"
    and g: "get_item k tbl = Some item"
    and i: "httpMethod event = ''POST'' \<longrightarrow> uuidv4 E \<noteq> k"
  shows "get_item k tbl' = Some item \<or> get_item k tbl' = Some (item\<lparr>revoked := True\<rparr>)"
proof -
  consider (post) "httpMethod event = ''POST''" "createToken L E tbl event user = Inr (tbl', res)"
    | (get) "listTokens E tbl user = Inr (tbl', res)"
    | (delete) "revokeToken E tbl event user = Inr (tbl', res)"
    | (other) "tbl' = tbl"
    using r by (auto simp: route_def split: if_splits)
  then show ?thesis
  proof cases
    case post
    from createToken_table [OF post(2)] i post(1) g show ?thesis
      by (auto simp: get_item_put_item new_apiToken_def)
  next
    case get
    from listTokens_table [OF get] g show ?thesis by simp
  next
    case delete
    from revokeToken_table [OF delete] g show ?thesis
      by (auto simp: get_item_set_revoked)
  next
    case other
    with g show ?thesis by simp
  qed
qed

lemma handler_keeps_item:
  assumes g: "get_item k tbl = Some item"
    and i: "httpMethod event = ''POST'' \<longrightarrow> uuidv4 E \<noteq> k"
  shows "get_item k (fst (tokens_handler L E tbl event)) = Some item
       \<or> get_item k (fst (tokens_handler L E tbl event)) = Some (item\<lparr>revoked := True\<rparr>)"
proof (cases "claims_sub event")
  case None
  with g show ?thesis by (simp add: tokens_handler_def)
next
  case (Some user)
  show ?thesis
  proof (cases "user = []")
    case True
    with Some g show ?thesis by (simp add: tokens_handler_def)
  next
    case False
    show ?thesis
    proof (cases "route L E tbl event user")
      case (Inl e)
      with Some False g show ?thesis by (simp add: tokens_handler_def)
    next
      case (Inr p)
      obtain tbl' res where p: "p = (tbl', res)" by (cases p)
      from route_keeps_item [OF Inr [unfolded p] g i] Some False Inr p
      show ?thesis by (simp add: tokens_handler_def)
    qed
  qed
qed

lemma run_keeps_item:
  "get_item k tbl = Some item \<Longrightarrow> k \<notin> set (drawn_ids calls) \<Longrightarrow>
     get_item k (run L tbl calls) = Some item
     \<or> get_item k (run L tbl calls) = Some (item\<lparr>revoked := True\<rparr>)"
proof (induction calls arbitrary: tbl item)
  case Nil
  then show ?case by (simp add: run_def)
next
  case (Cons c cs)
  have step: "get_item k (table_after L tbl c) = Some item
            \<or> get_item k (table_after L tbl c) = Some (item\<lparr>revoked := True\<rparr>)"
  proof (cases c)
    case (TokensRequest E event)
    with Cons.prems(2) have "httpMethod event = ''POST'' \<longrightarrow> uuidv4 E \<noteq> k"
      by auto
    from handler_keeps_item [OF Cons.prems(1) this] TokensRequest show ?thesis
      by simp
  next
    case (AuthorizerRequest E t a)
    with Cons.prems(1) show ?thesis by simp
  qed
  have rest: "k \<notin> set (drawn_ids cs)"
    using Cons.prems(2) by (cases c) (auto split: if_splits)
  have unfold: "run L tbl (c # cs) = run L (table_after L tbl c) cs"
    by (simp add: run_def)
  from step show ?case
  proof
    assume "get_item k (table_after L tbl c) = Some item"
    from Cons.IH [OF this rest] show ?thesis unfolding unfold .
  next
    assume "get_item k (table_after L tbl c) = Some (item\<lparr>revoked := True\<rparr>)"
    from Cons.IH [OF this rest] show ?thesis unfolding unfold by auto
  qed
qed

text \<open>
  Claim C8. Issue stores its new record with \<^verbatim>\<open>revoked\<close> false. Take any record of the
  table and any sequence of invocations of the token manager (Issue, List, Revoke, or
  anything else it is sent) and of the authorizer, in which no Issue draws the id of that
  record again from \<^verbatim>\<open>uuidv4()\<close>. After the sequence the table holds, under the same id,
  either the very same record or that record with \<^verbatim>\<open>revoked\<close> set to true; and if the
  record was revoked before the sequence, it is the very same record: still revoked.
\<close>

theorem revoked_never_reset:
  assumes "get_item k tbl = Some item" and "k \<notin> set (drawn_ids calls)"
  shows "(get_item k (run L tbl calls) = Some item
          \<or> get_item k (run L tbl calls) = Some (item\<lparr>revoked := True\<rparr>))
       \<and> (revoked item \<longrightarrow> get_item k (run L tbl calls) = Some item)
       \<and> (\<forall>E tbl0 event user tbl' r.
            createToken L E tbl0 event user = Inr (tbl', r) \<and> statusCode r = 201 \<longrightarrow>
            (\<exists>a. get_item (uuidv4 E) tbl' = Some a \<and> \<not> revoked a))"
proof (intro conjI allI impI)
  show keep: "get_item k (run L tbl calls) = Some item
          \<or> get_item k (run L tbl calls) = Some (item\<lparr>revoked := True\<rparr>)"
    using assms by (rule run_keeps_item)
  show "get_item k (run L tbl calls) = Some item" if "revoked item"
    using keep revoked_update_same [OF that] by auto
next
  fix E tbl0 event user tbl' r
  assume "createToken L E tbl0 event user = Inr (tbl', r) \<and> statusCode r = 201"
  then have c: "createToken L E tbl0 event user = Inr (tbl', r)" and s: "statusCode r = 201"
    by simp_all
  from createToken_table [OF c] s obtain request
    where "tbl' = put_item (new_apiToken L E request user) tbl0"
    by auto
  then have "get_item (uuidv4 E) tbl' = Some (new_apiToken L E request user)
           \<and> \<not> revoked (new_apiToken L E request user)"
    by (simp add: get_item_put_item new_apiToken_def)
  then show "\<exists>a. get_item (uuidv4 E) tbl' = Some a \<and> \<not> revoked a"
    by blast
qed

text \<open>On the demo world, starting from a table in which the first token of \<open>alice\<close> is
  already revoked.\<close>

theorem revoked_never_reset_witness:
  "get_item ''id-1''
     (run demo_lib
        [demo_item ''id-1'' ''alice'' ''wea_AAAA'' None True,
         demo_item ''id-2'' ''bob'' ''wea_BBBB'' (Some 100) False]
        demo_calls)
     = Some (demo_item ''id-1'' ''alice'' ''wea_AAAA'' None True)
   \<and> (\<exists>tbl' r a.
         createToken demo_lib demo_env demo_table
           (demo_event ''alice'' ''POST'' (Some ''CI'') None) ''alice'' = Inr (tbl', r)
       \<and> statusCode r = 201 \<and> get_item ''id-3'' tbl' = Some a \<and> \<not> revoked a)"
proof -
  let ?tbl = "[demo_item ''id-1'' ''alice'' ''wea_AAAA'' None True,
               demo_item ''id-2'' ''bob'' ''wea_BBBB'' (Some 100) False]"
  let ?post = "demo_event ''alice'' ''POST'' (Some ''CI'') None"
  let ?a = "new_apiToken demo_lib demo_env \<lparr>req_name = Some ''CI'', expiresInDays = None\<rparr> ''alice''"
  let ?r = "reply 201 (CreateTokenResponse (new_token demo_env) (?a\<lparr>tokenHash := None\<rparr>))"
  have g: "get_item ''id-1'' ?tbl = Some (demo_item ''id-1'' ''alice'' ''wea_AAAA'' None True)"
    by (simp add: demo_item_def)
  have d: "''id-1'' \<notin> set (drawn_ids demo_calls)"
    by (simp add: demo_calls_def demo_event_def demo_env_def)
  have r: "revoked (demo_item ''id-1'' ''alice'' ''wea_AAAA'' None True)"
    by (simp add: demo_item_def)
  have c: "createToken demo_lib demo_env demo_table ?post ''alice'' = Inr (put_item ?a demo_table, ?r)"
    by (simp add: createToken_def demo_lib_def demo_env_def demo_event_def trim_def
          is_white_space_def MAX_EXPIRY_DAYS_def)
  have s: "statusCode ?r = 201"
    by (simp add: reply_def)
  have u: "uuidv4 demo_env = ''id-3''"
    by (simp add: demo_env_def)
  note inst = revoked_never_reset [OF g d, of demo_lib]
  from inst r have 1: "get_item ''id-1'' (run demo_lib ?tbl demo_calls)
     = Some (demo_item ''id-1'' ''alice'' ''wea_AAAA'' None True)"
    by blast
  from inst c s have "\<exists>a. get_item (uuidv4 demo_env) (put_item ?a demo_table) = Some a \<and> \<not> revoked a"
    by blast
  with c s u have 2: "\<exists>tbl' r a.
         createToken demo_lib demo_env demo_table ?post ''alice'' = Inr (tbl', r)
       \<and> statusCode r = 201 \<and> get_item ''id-3'' tbl' = Some a \<and> \<not> revoked a"
    by auto
  from 1 2 show ?thesis by simp
qed

end
